theory Spec2Isabelle
  imports Main
begin

section \<open>Data model\<close>

text \<open>
  The front end holds three kinds of server data in React state: events, notifications
  and the signed-in user. A JavaScript object is a record; the object spread
  \<^verbatim>\<open>{ ...e, isBookmarked: v }\<close> is the record update \<open>e\<lparr>isBookmarked := v\<rparr>\<close>, which
  keeps every other field (also those of an extension of the record). The field
  \<^verbatim>\<open>id\<close> is written \<open>id_event\<close> and \<open>id_notif\<close>, since \<open>id\<close> is the identity
  function of HOL. Ids are natural numbers and \<^verbatim>\<open>===\<close> on them is equality;
  \<^verbatim>\<open>isBookmarked\<close> and \<^verbatim>\<open>is_read\<close> are booleans, so \<^verbatim>\<open>!\<close> is negation.
\<close>

record event =
  id_event :: nat
  name :: string
  description :: string
  location :: "string option"
  start_time :: string
  end_time :: string
  isBookmarked :: bool

record notification =
  id_notif :: nat
  message :: string
  created_at :: string
  is_read :: bool

record identity =
  username :: string

text \<open>
  A rejected axios call carries an optional status and a message
  (\<^verbatim>\<open>err.response?.status\<close>, \<^verbatim>\<open>err.message\<close>).
\<close>

datatype error = RemoteError (status: "nat option") (err_message: string)

type_synonym 'a result = "error + 'a"

datatype request = Get string | Post string | Put string | Delete string

section \<open>Effects: view state, console and network\<close>

text \<open>
  A component's code runs against its own React state (\<open>view\<close>), the browser console
  and the network. \<^verbatim>\<open>console.error(msg, err)\<close> appends to \<open>console\<close>; issuing an HTTP
  call appends the request to \<open>network\<close>. What the server answers is not decided by
  the front end: every call takes the settled value of its promise as a parameter,
  \<open>Inl err\<close> for a rejection and \<open>Inr data\<close> for \<^verbatim>\<open>response.data\<close>.
\<close>

record 'v world =
  view :: 'v
  console :: "(string \<times> error) list"
  network :: "request list"

type_synonym ('v, 'a) eff = "'v world \<Rightarrow> 'a result \<times> 'v world"

definition unit_eff :: "'a \<Rightarrow> ('v, 'a) eff" where
  "unit_eff x = (\<lambda>w. (Inr x, w))"

text \<open>Sequencing of statements: a thrown error skips the rest.\<close>

definition then_eff :: "('v, 'a) eff \<Rightarrow> ('a \<Rightarrow> ('v, 'b) eff) \<Rightarrow> ('v, 'b) eff" where
  "then_eff m k = (\<lambda>w. case m w of (Inl e, w') \<Rightarrow> (Inl e, w') | (Inr x, w') \<Rightarrow> k x w')"

text \<open>
  \<^verbatim>\<open>try { m } catch (e) { h e }\<close> as a statement, and \<^verbatim>\<open>promise.catch(h)\<close> whose value
  is dropped: the handler runs on the state the body left, and an error thrown by
  the handler itself escapes.
\<close>

definition try_catch :: "('v, 'a) eff \<Rightarrow> (error \<Rightarrow> ('v, unit) eff) \<Rightarrow> ('v, unit) eff" where
  "try_catch m h = (\<lambda>w. case m w of (Inl e, w') \<Rightarrow> h e w' | (Inr x, w') \<Rightarrow> (Inr (), w'))"

text \<open>\<^verbatim>\<open>try { m } catch (e) { h e } finally { f }\<close>: \<open>f\<close> runs on both paths.\<close>

definition try_catch_finally ::
  "('v, 'a) eff \<Rightarrow> (error \<Rightarrow> ('v, unit) eff) \<Rightarrow> ('v, unit) eff \<Rightarrow> ('v, unit) eff" where
  "try_catch_finally m h f =
     (\<lambda>w. case try_catch m h w of
             (r, w') \<Rightarrow> (case f w' of (Inl e, w'') \<Rightarrow> (Inl e, w'') | (Inr u, w'') \<Rightarrow> (r, w'')))"

text \<open>
  A call of an async function that is not awaited: its effects happen, its promise is
  dropped, so a rejection of it would not reach the caller's \<^verbatim>\<open>catch\<close>.
\<close>

definition detached :: "('v, 'a) eff \<Rightarrow> ('v, unit) eff" where
  "detached m = (\<lambda>w. case m w of (r, w') \<Rightarrow> (Inr (), w'))"

definition console_error :: "string \<Rightarrow> error \<Rightarrow> ('v, unit) eff" where
  "console_error msg err = (\<lambda>w. (Inr (), w\<lparr>console := console w @ [(msg, err)]\<rparr>))"

definition send :: "request \<Rightarrow> ('v, unit) eff" where
  "send req = (\<lambda>w. (Inr (), w\<lparr>network := network w @ [req]\<rparr>))"

definition await :: "'a result \<Rightarrow> ('v, 'a) eff" where
  "await r = (\<lambda>w. (r, w))"

definition api_get :: "string \<Rightarrow> 'a result \<Rightarrow> ('v, 'a) eff" where
  "api_get path r = then_eff (send (Get path)) (\<lambda>_. await r)"

definition api_post :: "string \<Rightarrow> 'a result \<Rightarrow> ('v, 'a) eff" where
  "api_post path r = then_eff (send (Post path)) (\<lambda>_. await r)"

definition api_put :: "string \<Rightarrow> 'a result \<Rightarrow> ('v, 'a) eff" where
  "api_put path r = then_eff (send (Put path)) (\<lambda>_. await r)"

definition api_delete :: "string \<Rightarrow> 'a result \<Rightarrow> ('v, 'a) eff" where
  "api_delete path r = then_eff (send (Delete path)) (\<lambda>_. await r)"

text \<open>A number inside a template literal is printed in decimal.\<close>

fun string_of_nat :: "nat \<Rightarrow> string" where
  "string_of_nat n =
     (if n < 10 then [''0123456789'' ! n]
      else string_of_nat (n div 10) @ [''0123456789'' ! (n mod 10)])"

declare string_of_nat.simps [simp del]

definition bookmark_path :: "nat \<Rightarrow> string" where
  "bookmark_path i = ''/events/'' @ string_of_nat i @ ''/bookmark''"

definition read_path :: "nat \<Rightarrow> string" where
  "read_path i = ''/events/notifications/'' @ string_of_nat i @ ''/read''"

section \<open>EventListPage and BookmarksPage\<close>

text \<open>
  Both pages hold \<^verbatim>\<open>[events, setEvents]\<close> and \<^verbatim>\<open>[isLoading, setIsLoading]\<close>, starting
  from \<^verbatim>\<open>useState([])\<close> and \<^verbatim>\<open>useState(true)\<close>.
\<close>

record list_page =
  events :: "event list"
  isLoading :: bool

definition list_page_init :: list_page where
  "list_page_init = \<lparr>events = [], isLoading = True\<rparr>"

definition setEvents :: "event list \<Rightarrow> (list_page, unit) eff" where
  "setEvents v = (\<lambda>w. (Inr (), w\<lparr>view := (view w)\<lparr>events := v\<rparr>\<rparr>))"

text \<open>\<^verbatim>\<open>setEvents(current => f(current))\<close>: the updater reads the state of that moment.\<close>

definition setEvents_by :: "(event list \<Rightarrow> event list) \<Rightarrow> (list_page, unit) eff" where
  "setEvents_by f = (\<lambda>w. (Inr (), w\<lparr>view := (view w)\<lparr>events := f (events (view w))\<rparr>\<rparr>))"

definition setIsLoading :: "bool \<Rightarrow> (list_page, unit) eff" where
  "setIsLoading b = (\<lambda>w. (Inr (), w\<lparr>view := (view w)\<lparr>isLoading := b\<rparr>\<rparr>))"

text \<open>\<^verbatim>\<open>fetchEvents\<close> of \<^verbatim>\<open>EventListPage\<close> (App.jsx).\<close>

definition fetchEvents :: "event list result \<Rightarrow> (list_page, unit) eff" where
  "fetchEvents r =
     then_eff (setIsLoading True) (\<lambda>_.
     then_eff (try_catch
                 (then_eff (api_get ''/events'' r) (\<lambda>response. setEvents response))
                 (\<lambda>error. console_error ''Error fetching events:'' error)) (\<lambda>_.
     setIsLoading False))"

text \<open>\<^verbatim>\<open>fetchEvents\<close> of \<^verbatim>\<open>EventsPage\<close>, which resets the flag in a \<^verbatim>\<open>finally\<close> block.\<close>

definition fetchEvents_page :: "event list result \<Rightarrow> (list_page, unit) eff" where
  "fetchEvents_page r =
     then_eff (setIsLoading True) (\<lambda>_.
     try_catch_finally
       (then_eff (api_get ''/events'' r) (\<lambda>response. setEvents response))
       (\<lambda>error. console_error ''Error fetching events:'' error)
       (setIsLoading False))"

definition fetchBookmarkedEvents :: "event list result \<Rightarrow> (list_page, unit) eff" where
  "fetchBookmarkedEvents r =
     then_eff (setIsLoading True) (\<lambda>_.
     then_eff (try_catch
                 (then_eff (api_get ''/events/my-bookmarks'' r) (\<lambda>response. setEvents response))
                 (\<lambda>error. console_error ''Error fetching bookmarks:'' error)) (\<lambda>_.
     setIsLoading False))"

text \<open>
  \<^verbatim>\<open>handleBookmarkToggle(event)\<close> runs in two turns of the event loop. The first turn
  patches the list and issues the request chosen from the captured \<^verbatim>\<open>event\<close>; the
  second turn runs when the promise settles, and its \<^verbatim>\<open>catch\<close> callback patches the
  list of that later moment. Other updates may come between the two.
\<close>

definition toggle_optimistic :: "event \<Rightarrow> event list \<Rightarrow> event list" where
  "toggle_optimistic event currentEvents =
     map (\<lambda>e. if id_event e = id_event event then e\<lparr>isBookmarked := \<not> isBookmarked e\<rparr> else e)
       currentEvents"

definition toggle_revert :: "event \<Rightarrow> event list \<Rightarrow> event list" where
  "toggle_revert event currentEvents =
     map (\<lambda>e. if id_event e = id_event event then e\<lparr>isBookmarked := isBookmarked event\<rparr> else e)
       currentEvents"

definition toggle_request :: "event \<Rightarrow> request" where
  "toggle_request event =
     (if isBookmarked event then Delete (bookmark_path (id_event event))
      else Post (bookmark_path (id_event event)))"

definition handleBookmarkToggle_issue :: "event \<Rightarrow> (list_page, unit) eff" where
  "handleBookmarkToggle_issue event =
     then_eff (setEvents_by (toggle_optimistic event)) (\<lambda>_. send (toggle_request event))"

definition handleBookmarkToggle_settle :: "event \<Rightarrow> unit result \<Rightarrow> (list_page, unit) eff" where
  "handleBookmarkToggle_settle event r =
     try_catch (await r) (\<lambda>err.
       then_eff (console_error ''Failed to toggle bookmark'' err) (\<lambda>_.
       setEvents_by (toggle_revert event)))"

definition handleBookmarkToggle :: "event \<Rightarrow> unit result \<Rightarrow> (list_page, unit) eff" where
  "handleBookmarkToggle event r =
     then_eff (handleBookmarkToggle_issue event) (\<lambda>_. handleBookmarkToggle_settle event r)"

text \<open>\<^verbatim>\<open>handleRemoveBookmark(event)\<close> of \<^verbatim>\<open>BookmarksPage\<close>, in the same two turns.\<close>

definition remove_optimistic :: "event \<Rightarrow> event list \<Rightarrow> event list" where
  "remove_optimistic event currentEvents =
     filter (\<lambda>e. id_event e \<noteq> id_event event) currentEvents"

definition remove_revert :: "event \<Rightarrow> event list \<Rightarrow> event list" where
  "remove_revert event currentEvents = currentEvents @ [event]"

definition handleRemoveBookmark_issue :: "event \<Rightarrow> (list_page, unit) eff" where
  "handleRemoveBookmark_issue event =
     then_eff (setEvents_by (remove_optimistic event)) (\<lambda>_.
     send (Delete (bookmark_path (id_event event))))"

definition handleRemoveBookmark_settle :: "event \<Rightarrow> unit result \<Rightarrow> (list_page, unit) eff" where
  "handleRemoveBookmark_settle event r =
     try_catch (await r) (\<lambda>err.
       then_eff (console_error ''Failed to remove bookmark'' err) (\<lambda>_.
       setEvents_by (remove_revert event)))"

definition handleRemoveBookmark :: "event \<Rightarrow> unit result \<Rightarrow> (list_page, unit) eff" where
  "handleRemoveBookmark event r =
     then_eff (handleRemoveBookmark_issue event) (\<lambda>_. handleRemoveBookmark_settle event r)"

text \<open>What the two pages render from their state.\<close>

datatype list_display = LoadingText | EmptyText | Cards "event list"

definition render_list_page :: "list_page \<Rightarrow> list_display" where
  "render_list_page p =
     (if isLoading p then LoadingText
      else if length (events p) = 0 then EmptyText
      else Cards (events p))"

section \<open>MainApp and NotificationsPage\<close>

text \<open>
  \<^verbatim>\<open>MainApp\<close> owns the notification list and hands it, with \<^verbatim>\<open>fetchNotifications\<close>,
  to \<^verbatim>\<open>NotificationsPage\<close>.
\<close>

record main_app =
  page :: string
  notifications :: "notification list"

definition main_app_init :: main_app where
  "main_app_init = \<lparr>page = ''events'', notifications = []\<rparr>"

definition setNotifications :: "notification list \<Rightarrow> (main_app, unit) eff" where
  "setNotifications v = (\<lambda>w. (Inr (), w\<lparr>view := (view w)\<lparr>notifications := v\<rparr>\<rparr>))"

definition fetchNotifications :: "notification list result \<Rightarrow> (main_app, unit) eff" where
  "fetchNotifications r =
     try_catch
       (then_eff (api_get ''/events/notifications'' r) (\<lambda>response. setNotifications response))
       (\<lambda>error. console_error ''Error fetching notifications:'' error)"

definition unreadCount :: "notification list \<Rightarrow> nat" where
  "unreadCount ns = length (filter (\<lambda>n. \<not> is_read n) ns)"

text \<open>
  \<^verbatim>\<open>handleMarkRead(id)\<close>: \<open>put\<close> is how the PUT settles and \<open>refetch\<close> how the GET of
  the re-fetch settles, should it be issued. \<^verbatim>\<open>fetchNotifications()\<close> is called
  without \<^verbatim>\<open>await\<close>.
\<close>

definition handleMarkRead ::
  "nat \<Rightarrow> unit result \<Rightarrow> notification list result \<Rightarrow> (main_app, unit) eff" where
  "handleMarkRead i put refetch =
     try_catch
       (then_eff (api_put (read_path i) put) (\<lambda>_. detached (fetchNotifications refetch)))
       (\<lambda>error. console_error ''Error marking notification read:'' error)"

datatype notif_display = NoNotificationsText | Items "notification list"

definition render_notifications :: "notification list \<Rightarrow> notif_display" where
  "render_notifications ns = (if length ns = 0 then NoNotificationsText else Items ns)"

section \<open>AuthProvider\<close>

text \<open>
  \<^verbatim>\<open>[user, setUser] = useState(null)\<close> and \<^verbatim>\<open>[isLoading, setIsLoading] = useState(true)\<close>;
  \<^verbatim>\<open>null\<close> is \<open>None\<close>. The credentials of \<^verbatim>\<open>login\<close> and \<^verbatim>\<open>register\<close> travel in the
  request body and decide nothing on the client, so the two functions take only the
  settled value of their call.
\<close>

record auth =
  user :: "identity option"
  isLoading_auth :: bool

definition auth_init :: auth where
  "auth_init = \<lparr>user = None, isLoading_auth = True\<rparr>"

definition setUser :: "identity option \<Rightarrow> (auth, unit) eff" where
  "setUser v = (\<lambda>w. (Inr (), w\<lparr>view := (view w)\<lparr>user := v\<rparr>\<rparr>))"

definition setIsLoading_auth :: "bool \<Rightarrow> (auth, unit) eff" where
  "setIsLoading_auth b = (\<lambda>w. (Inr (), w\<lparr>view := (view w)\<lparr>isLoading_auth := b\<rparr>\<rparr>))"

definition checkSession :: "identity result \<Rightarrow> (auth, unit) eff" where
  "checkSession r =
     then_eff (try_catch
                 (then_eff (api_get ''/auth/check'' r) (\<lambda>response. setUser (Some response)))
                 (\<lambda>error. setUser None)) (\<lambda>_.
     setIsLoading_auth False)"

definition login :: "identity result \<Rightarrow> (auth, identity) eff" where
  "login r =
     then_eff (api_post ''/auth/login'' r) (\<lambda>response.
     then_eff (setUser (Some response)) (\<lambda>_.
     unit_eff response))"

definition register :: "identity result \<Rightarrow> (auth, identity) eff" where
  "register r =
     then_eff (api_post ''/auth/register'' r) (\<lambda>response.
     then_eff (setUser (Some response)) (\<lambda>_.
     unit_eff response))"

definition logout :: "unit result \<Rightarrow> (auth, unit) eff" where
  "logout r = then_eff (api_post ''/auth/logout'' r) (\<lambda>_. setUser None)"

text \<open>
  The three states of the session store, read off the two state variables: nothing
  is rendered while \<^verbatim>\<open>isLoading\<close> holds, and afterwards \<^verbatim>\<open>user\<close> decides.
\<close>

datatype session = Unknown | Authenticated identity | Anonymous

definition session_of :: "auth \<Rightarrow> session" where
  "session_of a =
     (if isLoading_auth a then Unknown
      else case user a of None \<Rightarrow> Anonymous | Some u \<Rightarrow> Authenticated u)"

section \<open>Concrete states\<close>

definition mk_event :: "nat \<Rightarrow> bool \<Rightarrow> event" where
  "mk_event i b =
     \<lparr>id_event = i, name = ''Expo'', description = ''Hall A'', location = None,
      start_time = ''2025-01-01T09:00'', end_time = ''2025-01-01T17:00'', isBookmarked = b\<rparr>"

definition mk_notif :: "nat \<Rightarrow> bool \<Rightarrow> notification" where
  "mk_notif i b =
     \<lparr>id_notif = i, message = ''Starts soon'', created_at = ''2025-01-01T08:00'', is_read = b\<rparr>"

definition world_of :: "'v \<Rightarrow> 'v world" where
  "world_of v = \<lparr>view = v, console = [], network = []\<rparr>"

definition err0 :: error where
  "err0 = RemoteError (Some 500) ''Request failed with status code 500''"

definition alice :: identity where
  "alice = \<lparr>username = ''alice''\<rparr>"

definition events_world :: "list_page world" where
  "events_world = world_of \<lparr>events = [mk_event 1 False, mk_event 2 True], isLoading = False\<rparr>"

definition bookmarks_world :: "list_page world" where
  "bookmarks_world = world_of \<lparr>events = [mk_event 5 True, mk_event 9 True], isLoading = False\<rparr>"

definition notif_world :: "main_app world" where
  "notif_world =
     world_of \<lparr>page = ''notifications'', notifications = [mk_notif 1 False, mk_notif 2 True]\<rparr>"

definition signed_in_world :: "auth world" where
  "signed_in_world = world_of \<lparr>user = Some alice, isLoading_auth = False\<rparr>"

definition signed_out_world :: "auth world" where
  "signed_out_world = world_of \<lparr>user = None, isLoading_auth = False\<rparr>"

text \<open>
  The interleaving in which another update removes the items with the id of \<open>ej\<close>
  between the two turns of a toggle whose request then fails.
\<close>

definition toggle_remove_fail :: "event \<Rightarrow> event \<Rightarrow> error \<Rightarrow> (list_page, unit) eff" where
  "toggle_remove_fail event ej err =
     then_eff (handleBookmarkToggle_issue event) (\<lambda>_.
     then_eff (setEvents_by (remove_optimistic ej)) (\<lambda>_.
     handleBookmarkToggle_settle event (Inl err)))"

text \<open>
  The bookmarks list after item 5 was removed optimistically and a reload of the list,
  on which the server still has item 5, arrived before the DELETE settled.
\<close>

definition reloaded_world :: "list_page world" where
  "reloaded_world =
     snd (fetchBookmarkedEvents (Inr [mk_event 5 True, mk_event 9 True])
            (snd (handleRemoveBookmark_issue (mk_event 5 True) bookmarks_world)))"

section \<open>The list updates and the runs of the handlers\<close>

text \<open>
  First the updaters on lists, then what each handler returns and leaves behind for a
  rejected and for a fulfilled call.
\<close>

lemmas eff_defs = unit_eff_def then_eff_def try_catch_def try_catch_finally_def detached_def
  console_error_def send_def await_def api_get_def api_post_def api_put_def api_delete_def

lemma toggle_revert_after_optimistic:
  "toggle_revert event (toggle_optimistic event C) = toggle_revert event C"
  by (simp add: toggle_revert_def toggle_optimistic_def)

lemma toggle_revert_fixed:
  "\<forall>e\<in>set C. id_event e = id_event event \<longrightarrow> isBookmarked e = isBookmarked event
   \<Longrightarrow> toggle_revert event C = C"
  by (induction C) (simp_all add: toggle_revert_def)

lemma toggle_revert_flag:
  "x \<in> set (toggle_revert event C) \<Longrightarrow> id_event x = id_event event
   \<Longrightarrow> isBookmarked x = isBookmarked event"
  by (auto simp: toggle_revert_def split: if_splits)

lemma remove_toggle_commute:
  "remove_optimistic ej (toggle_revert event C) = toggle_revert event (remove_optimistic ej C)"
  by (induction C) (simp_all add: remove_optimistic_def toggle_revert_def)

lemma remove_revert_ids:
  "map id_event (remove_optimistic ej (toggle_revert event C))
     = filter (\<lambda>i. i \<noteq> id_event ej) (map id_event C)"
  by (induction C) (auto simp: remove_optimistic_def toggle_revert_def)

lemma unique_id_item:
  "distinct (map id_event C) \<Longrightarrow> e \<in> set C \<Longrightarrow> e' \<in> set C \<Longrightarrow> id_event e = id_event e' \<Longrightarrow> e = e'"
  by (meson distinct_map inj_on_eq_iff)

lemma unique_id_flag:
  assumes "distinct (map id_event C)" and "e \<in> set C"
    and "id_event e = id_event event" and "isBookmarked e = isBookmarked event"
  shows "\<forall>x\<in>set C. id_event x = id_event event \<longrightarrow> isBookmarked x = isBookmarked event"
  using assms unique_id_item by metis

lemma toggle_issue_run:
  "handleBookmarkToggle_issue event w =
     (Inr (), w\<lparr>view := (view w)\<lparr>events := toggle_optimistic event (events (view w))\<rparr>,
               network := network w @ [toggle_request event]\<rparr>)"
  by (simp add: handleBookmarkToggle_issue_def setEvents_by_def eff_defs)

lemma toggle_settle_fail_run:
  "handleBookmarkToggle_settle event (Inl err) w =
     (Inr (), w\<lparr>view := (view w)\<lparr>events := toggle_revert event (events (view w))\<rparr>,
               console := console w @ [(''Failed to toggle bookmark'', err)]\<rparr>)"
  by (simp add: handleBookmarkToggle_settle_def setEvents_by_def eff_defs)

lemma toggle_settle_ok_run: "handleBookmarkToggle_settle event (Inr u) w = (Inr (), w)"
  by (simp add: handleBookmarkToggle_settle_def eff_defs)

lemma toggle_fail_run:
  "handleBookmarkToggle event (Inl err) w =
     (Inr (), w\<lparr>view := (view w)\<lparr>events := toggle_revert event (events (view w))\<rparr>,
               console := console w @ [(''Failed to toggle bookmark'', err)],
               network := network w @ [toggle_request event]\<rparr>)"
  by (simp add: handleBookmarkToggle_def then_eff_def toggle_issue_run toggle_settle_fail_run
      toggle_revert_after_optimistic)

lemma toggle_ok_run:
  "handleBookmarkToggle event (Inr u) w =
     (Inr (), w\<lparr>view := (view w)\<lparr>events := toggle_optimistic event (events (view w))\<rparr>,
               network := network w @ [toggle_request event]\<rparr>)"
  by (simp add: handleBookmarkToggle_def then_eff_def toggle_issue_run toggle_settle_ok_run)

lemma remove_issue_run:
  "handleRemoveBookmark_issue event w =
     (Inr (), w\<lparr>view := (view w)\<lparr>events := remove_optimistic event (events (view w))\<rparr>,
               network := network w @ [Delete (bookmark_path (id_event event))]\<rparr>)"
  by (simp add: handleRemoveBookmark_issue_def setEvents_by_def eff_defs)

lemma remove_settle_fail_run:
  "handleRemoveBookmark_settle event (Inl err) w =
     (Inr (), w\<lparr>view := (view w)\<lparr>events := events (view w) @ [event]\<rparr>,
               console := console w @ [(''Failed to remove bookmark'', err)]\<rparr>)"
  by (simp add: handleRemoveBookmark_settle_def setEvents_by_def remove_revert_def eff_defs)

lemma remove_settle_ok_run: "handleRemoveBookmark_settle event (Inr u) w = (Inr (), w)"
  by (simp add: handleRemoveBookmark_settle_def eff_defs)

lemma remove_fail_run:
  "handleRemoveBookmark event (Inl err) w =
     (Inr (), w\<lparr>view := (view w)\<lparr>events := remove_optimistic event (events (view w)) @ [event]\<rparr>,
               console := console w @ [(''Failed to remove bookmark'', err)],
               network := network w @ [Delete (bookmark_path (id_event event))]\<rparr>)"
  by (simp add: handleRemoveBookmark_def then_eff_def remove_issue_run remove_settle_fail_run)

lemma remove_ok_run:
  "handleRemoveBookmark event (Inr u) w =
     (Inr (), w\<lparr>view := (view w)\<lparr>events := remove_optimistic event (events (view w))\<rparr>,
               network := network w @ [Delete (bookmark_path (id_event event))]\<rparr>)"
  by (simp add: handleRemoveBookmark_def then_eff_def remove_issue_run remove_settle_ok_run)

lemma fetchNotifications_fail_run:
  "fetchNotifications (Inl err) w =
     (Inr (), w\<lparr>console := console w @ [(''Error fetching notifications:'', err)],
               network := network w @ [Get ''/events/notifications'']\<rparr>)"
  by (simp add: fetchNotifications_def eff_defs)

lemma fetchNotifications_ok_run:
  "fetchNotifications (Inr ns) w =
     (Inr (), w\<lparr>view := (view w)\<lparr>notifications := ns\<rparr>,
               network := network w @ [Get ''/events/notifications'']\<rparr>)"
  by (simp add: fetchNotifications_def setNotifications_def eff_defs)

lemma markRead_fail_run:
  "handleMarkRead i (Inl err) refetch w =
     (Inr (), w\<lparr>console := console w @ [(''Error marking notification read:'', err)],
               network := network w @ [Put (read_path i)]\<rparr>)"
  by (simp add: handleMarkRead_def eff_defs)

lemma markRead_ok_run:
  "handleMarkRead i (Inr u) refetch w =
     (Inr (), snd (fetchNotifications refetch (w\<lparr>network := network w @ [Put (read_path i)]\<rparr>)))"
  by (simp add: handleMarkRead_def eff_defs split: prod.splits sum.splits)

lemma fetchEvents_fail_run:
  "fetchEvents (Inl err) w =
     (Inr (), w\<lparr>view := (view w)\<lparr>isLoading := False\<rparr>,
               console := console w @ [(''Error fetching events:'', err)],
               network := network w @ [Get ''/events'']\<rparr>)"
  by (simp add: fetchEvents_def setIsLoading_def eff_defs)

lemma fetchEvents_page_fail_run:
  "fetchEvents_page (Inl err) w =
     (Inr (), w\<lparr>view := (view w)\<lparr>isLoading := False\<rparr>,
               console := console w @ [(''Error fetching events:'', err)],
               network := network w @ [Get ''/events'']\<rparr>)"
  by (simp add: fetchEvents_page_def setIsLoading_def eff_defs)

lemma fetchBookmarkedEvents_fail_run:
  "fetchBookmarkedEvents (Inl err) w =
     (Inr (), w\<lparr>view := (view w)\<lparr>isLoading := False\<rparr>,
               console := console w @ [(''Error fetching bookmarks:'', err)],
               network := network w @ [Get ''/events/my-bookmarks'']\<rparr>)"
  by (simp add: fetchBookmarkedEvents_def setIsLoading_def eff_defs)

lemma fetchBookmarkedEvents_ok_run:
  "fetchBookmarkedEvents (Inr es) w =
     (Inr (), w\<lparr>view := (view w)\<lparr>events := es, isLoading := False\<rparr>,
               network := network w @ [Get ''/events/my-bookmarks'']\<rparr>)"
  by (simp add: fetchBookmarkedEvents_def setIsLoading_def setEvents_def eff_defs)

lemma fetchEvents_ok_run:
  "fetchEvents (Inr es) w =
     (Inr (), w\<lparr>view := (view w)\<lparr>events := es, isLoading := False\<rparr>,
               network := network w @ [Get ''/events'']\<rparr>)"
  by (simp add: fetchEvents_def setIsLoading_def setEvents_def eff_defs)

lemma fetchEvents_page_ok_run:
  "fetchEvents_page (Inr es) w =
     (Inr (), w\<lparr>view := (view w)\<lparr>events := es, isLoading := False\<rparr>,
               network := network w @ [Get ''/events'']\<rparr>)"
  by (simp add: fetchEvents_page_def setIsLoading_def setEvents_def eff_defs)

lemma checkSession_ok_run:
  "checkSession (Inr u) w =
     (Inr (), w\<lparr>view := (view w)\<lparr>user := Some u, isLoading_auth := False\<rparr>,
               network := network w @ [Get ''/auth/check'']\<rparr>)"
  by (simp add: checkSession_def setUser_def setIsLoading_auth_def eff_defs)

lemma checkSession_fail_run:
  "checkSession (Inl err) w =
     (Inr (), w\<lparr>view := (view w)\<lparr>user := None, isLoading_auth := False\<rparr>,
               network := network w @ [Get ''/auth/check'']\<rparr>)"
  by (simp add: checkSession_def setUser_def setIsLoading_auth_def eff_defs)

lemma login_ok_run:
  "login (Inr u) w =
     (Inr u, w\<lparr>view := (view w)\<lparr>user := Some u\<rparr>, network := network w @ [Post ''/auth/login'']\<rparr>)"
  by (simp add: login_def setUser_def eff_defs)

lemma login_fail_run:
  "login (Inl err) w = (Inl err, w\<lparr>network := network w @ [Post ''/auth/login'']\<rparr>)"
  by (simp add: login_def setUser_def eff_defs)

lemma register_ok_run:
  "register (Inr u) w =
     (Inr u, w\<lparr>view := (view w)\<lparr>user := Some u\<rparr>, network := network w @ [Post ''/auth/register'']\<rparr>)"
  by (simp add: register_def setUser_def eff_defs)

lemma register_fail_run:
  "register (Inl err) w = (Inl err, w\<lparr>network := network w @ [Post ''/auth/register'']\<rparr>)"
  by (simp add: register_def setUser_def eff_defs)

lemma logout_ok_run:
  "logout (Inr u) w =
     (Inr (), w\<lparr>view := (view w)\<lparr>user := None\<rparr>, network := network w @ [Post ''/auth/logout'']\<rparr>)"
  by (simp add: logout_def setUser_def eff_defs)

lemma logout_fail_run:
  "logout (Inl err) w = (Inl err, w\<lparr>network := network w @ [Post ''/auth/logout'']\<rparr>)"
  by (simp add: logout_def setUser_def eff_defs)

lemma mk_event_sel [simp]:
  "id_event (mk_event i b) = i" "isBookmarked (mk_event i b) = b"
  by (simp_all add: mk_event_def)

lemma mk_event_upd [simp]: "(mk_event i b)\<lparr>isBookmarked := c\<rparr> = mk_event i c"
  by (simp add: mk_event_def)

lemma mk_event_eq [simp]: "mk_event i b = mk_event j c \<longleftrightarrow> i = j \<and> b = c"
  by (auto simp: mk_event_def)

lemma mk_notif_sel [simp]:
  "id_notif (mk_notif i b) = i" "is_read (mk_notif i b) = b"
  by (simp_all add: mk_notif_def)

lemma mk_notif_eq [simp]: "mk_notif i b = mk_notif j c \<longleftrightarrow> i = j \<and> b = c"
  by (auto simp: mk_notif_def)

lemma string_of_digit: "string_of_nat (Suc 0) = ''1''" "string_of_nat 2 = ''2''"
  by (simp_all add: string_of_nat.simps)

lemmas concrete_defs = events_world_def bookmarks_world_def notif_world_def signed_in_world_def
  signed_out_world_def world_of_def

section \<open>The bookmark toggle\<close>

text \<open>
  Claim C1. Let the event list have unique ids and contain an item with the id and the
  flag of the toggled event. Running \<^verbatim>\<open>handleBookmarkToggle\<close> and then its failure
  handler gives back the page state it started from: the same items in the same order
  with the same fields, and the flag of the toggled item is the one it had.
\<close>

theorem toggle_rollback_roundtrip:
  assumes "distinct (map id_event (events (view w)))"
    and "e \<in> set (events (view w))"
    and "id_event e = id_event event"
    and "isBookmarked e = isBookmarked event"
  shows "view (snd (handleBookmarkToggle event (Inl err) w)) = view w
       \<and> (\<forall>x\<in>set (events (view (snd (handleBookmarkToggle event (Inl err) w)))).
            id_event x = id_event event \<longrightarrow> isBookmarked x = isBookmarked event)"
proof -
  have same: "\<forall>x\<in>set (events (view w)).
      id_event x = id_event event \<longrightarrow> isBookmarked x = isBookmarked event"
    using assms by (rule unique_id_flag)
  then have "toggle_revert event (events (view w)) = events (view w)"
    by (rule toggle_revert_fixed)
  then have "view (snd (handleBookmarkToggle event (Inl err) w)) = view w"
    by (simp add: toggle_fail_run)
  with same show ?thesis by simp
qed

theorem toggle_rollback_roundtrip_witness:
  "distinct (map id_event (events (view events_world)))
   \<and> mk_event 1 False \<in> set (events (view events_world))
   \<and> events (view (snd (handleBookmarkToggle_issue (mk_event 1 False) events_world)))
       = [mk_event 1 True, mk_event 2 True]
   \<and> view (snd (handleBookmarkToggle (mk_event 1 False) (Inl err0) events_world))
       = view events_world
   \<and> events (view (snd (handleBookmarkToggle (mk_event 1 False) (Inl err0) events_world)))
       = [mk_event 1 False, mk_event 2 True]"
  using toggle_rollback_roundtrip [of events_world "mk_event 1 False" "mk_event 1 False" err0]
  by (simp add: concrete_defs toggle_issue_run toggle_optimistic_def)

text \<open>
  The ids of a list are unique in the data the server sends, and the round trip rests
  on it: the rollback writes the captured flag on every item of the id, so of two items
  with one id and different flags the second is not restored.
\<close>

lemma toggle_rollback_shared_id:
  "events (view (snd (handleBookmarkToggle (mk_event 1 False) (Inl err0)
       (world_of \<lparr>events = [mk_event 1 False, mk_event 1 True], isLoading = False\<rparr>))))
     = [mk_event 1 False, mk_event 1 False]"
  by (simp add: toggle_fail_run toggle_revert_def world_of_def)

text \<open>
  Claim C2. Toggle item \<open>i\<close>, remove the items with another id \<open>j\<close> before the
  request settles, then let the request fail. The list that results is the original
  one without the items of id \<open>j\<close> and with the captured flag on the items of id
  \<open>i\<close>: nothing of id \<open>j\<close> is left, item \<open>i\<close> is still there with its flag
  restored, and every other item is as it was. The rollback finds its item by id, also
  when the removal has shifted its position.
\<close>

theorem rollback_by_id_after_removal:
  assumes "id_event ej \<noteq> id_event event"
  shows "fst (toggle_remove_fail event ej err w) = Inr ()
       \<and> events (view (snd (toggle_remove_fail event ej err w)))
           = remove_optimistic ej (toggle_revert event (events (view w)))
       \<and> (\<forall>x\<in>set (events (view (snd (toggle_remove_fail event ej err w)))).
            id_event x \<noteq> id_event ej)
       \<and> (\<forall>x\<in>set (events (view (snd (toggle_remove_fail event ej err w)))).
            id_event x = id_event event \<longrightarrow> isBookmarked x = isBookmarked event)
       \<and> ((\<exists>x\<in>set (events (view w)). id_event x = id_event event) \<longrightarrow>
            (\<exists>x\<in>set (events (view (snd (toggle_remove_fail event ej err w)))).
               id_event x = id_event event))
       \<and> ((\<forall>x\<in>set (events (view w)).
               id_event x = id_event event \<longrightarrow> isBookmarked x = isBookmarked event) \<longrightarrow>
            events (view (snd (toggle_remove_fail event ej err w)))
              = remove_optimistic ej (events (view w)))"
proof -
  let ?C = "events (view w)"
  let ?R = "events (view (snd (toggle_remove_fail event ej err w)))"
  have run: "toggle_remove_fail event ej err w =
      (Inr (), w\<lparr>view := (view w)\<lparr>events :=
                   toggle_revert event (remove_optimistic ej (toggle_optimistic event ?C))\<rparr>,
                 console := console w @ [(''Failed to toggle bookmark'', err)],
                 network := network w @ [toggle_request event]\<rparr>)"
    by (simp add: toggle_remove_fail_def then_eff_def toggle_issue_run toggle_settle_fail_run
        setEvents_by_def)
  have R: "?R = remove_optimistic ej (toggle_revert event ?C)"
    by (simp add: run remove_toggle_commute [symmetric] toggle_revert_after_optimistic)
  have absent: "\<forall>x\<in>set ?R. id_event x \<noteq> id_event ej"
    by (simp add: R remove_optimistic_def)
  have flag: "\<forall>x\<in>set ?R. id_event x = id_event event \<longrightarrow> isBookmarked x = isBookmarked event"
    using toggle_revert_flag by (auto simp: R remove_optimistic_def)
  have ids: "map id_event ?R = filter (\<lambda>i. i \<noteq> id_event ej) (map id_event ?C)"
    unfolding R by (rule remove_revert_ids)
  have present: "(\<exists>x\<in>set ?C. id_event x = id_event event) \<longrightarrow>
      (\<exists>x\<in>set ?R. id_event x = id_event event)"
  proof
    assume "\<exists>x\<in>set ?C. id_event x = id_event event"
    then obtain x where "x \<in> set ?C" and "id_event x = id_event event" by blast
    then have "id_event event \<in> id_event ` set ?C" by (metis imageI)
    then have "id_event event \<in> set (map id_event ?C)" by simp
    with assms have "id_event event \<in> set (map id_event ?R)" by (simp add: ids)
    then show "\<exists>x\<in>set ?R. id_event x = id_event event" by auto
  qed
  have exact: "(\<forall>x\<in>set ?C. id_event x = id_event event \<longrightarrow> isBookmarked x = isBookmarked event)
      \<longrightarrow> ?R = remove_optimistic ej ?C"
    by (simp add: R toggle_revert_fixed)
  from run R absent flag present exact show ?thesis by simp
qed

theorem rollback_by_id_after_removal_witness:
  "id_event (mk_event 1 False) \<noteq> id_event (mk_event 2 True)
   \<and> events (view (snd (toggle_remove_fail (mk_event 2 True) (mk_event 1 False) err0 events_world)))
       = [mk_event 2 True]"
  using rollback_by_id_after_removal [of "mk_event 1 False" "mk_event 2 True" err0 events_world]
  by (simp add: concrete_defs remove_optimistic_def toggle_revert_def)

section \<open>Removing a bookmark\<close>

text \<open>
  Claim C3. For a bookmarks list that contains \<open>k\<close>, the first turn of
  \<^verbatim>\<open>handleRemoveBookmark\<close> leaves the list without every item of \<open>k\<close>'s id, and
  if the request then fails the handler appends \<open>k\<close> itself, as it was captured, so
  \<open>k\<close> is in the list again (at the end). The last conjunct says the same for any
  state in which the failure handler may find the list.
\<close>

theorem removal_rollback_reinserts:
  assumes "k \<in> set (events (view w))"
  shows "events (view (snd (handleRemoveBookmark_issue k w)))
           = filter (\<lambda>e. id_event e \<noteq> id_event k) (events (view w))
       \<and> (\<forall>x\<in>set (events (view (snd (handleRemoveBookmark_issue k w)))).
            id_event x \<noteq> id_event k)
       \<and> length (events (view (snd (handleRemoveBookmark_issue k w)))) < length (events (view w))
       \<and> events (view (snd (handleRemoveBookmark k (Inl err) w)))
           = filter (\<lambda>e. id_event e \<noteq> id_event k) (events (view w)) @ [k]
       \<and> k \<in> set (events (view (snd (handleRemoveBookmark k (Inl err) w))))
       \<and> k \<in> set (events (view (snd (handleRemoveBookmark_settle k (Inl err) w'))))"
proof -
  have "length (filter (\<lambda>e. id_event e \<noteq> id_event k) (events (view w)))
      < length (events (view w))"
    using assms by (intro length_filter_less [of k]) simp_all
  then show ?thesis
    by (simp add: remove_issue_run remove_fail_run remove_settle_fail_run remove_optimistic_def)
qed

theorem removal_rollback_reinserts_witness:
  "mk_event 5 True \<in> set (events (view bookmarks_world))
   \<and> events (view (snd (handleRemoveBookmark_issue (mk_event 5 True) bookmarks_world)))
       = [mk_event 9 True]
   \<and> events (view (snd (handleRemoveBookmark (mk_event 5 True) (Inl err0) bookmarks_world)))
       = [mk_event 9 True, mk_event 5 True]"
  using removal_rollback_reinserts [of "mk_event 5 True" bookmarks_world err0 bookmarks_world]
  by (simp add: concrete_defs)

section \<open>Marking a notification read\<close>

text \<open>
  Claim C4. \<^verbatim>\<open>handleMarkRead\<close> first issues the PUT, on an untouched view. If the PUT
  fails, the view (the list and with it every \<^verbatim>\<open>is_read\<close> and the unread count) is
  unchanged, the error is logged and no re-fetch is issued. If it succeeds, the list is
  replaced by what the re-fetch returns. So the view differs afterwards only if the PUT
  succeeded and the re-fetch delivered the new list.
\<close>

theorem mark_read_gating:
  "handleMarkRead i put refetch w =
     try_catch (then_eff (await put) (\<lambda>_. detached (fetchNotifications refetch)))
       (\<lambda>error. console_error ''Error marking notification read:'' error)
       (w\<lparr>network := network w @ [Put (read_path i)]\<rparr>)
   \<and> view (snd (handleMarkRead i (Inl err) refetch w)) = view w
   \<and> unreadCount (notifications (view (snd (handleMarkRead i (Inl err) refetch w))))
       = unreadCount (notifications (view w))
   \<and> console (snd (handleMarkRead i (Inl err) refetch w))
       = console w @ [(''Error marking notification read:'', err)]
   \<and> network (snd (handleMarkRead i (Inl err) refetch w)) = network w @ [Put (read_path i)]
   \<and> view (snd (handleMarkRead i (Inr u) (Inr ns) w)) = (view w)\<lparr>notifications := ns\<rparr>
   \<and> network (snd (handleMarkRead i (Inr u) (Inr ns) w))
       = network w @ [Put (read_path i), Get ''/events/notifications'']
   \<and> (view (snd (handleMarkRead i put refetch w)) \<noteq> view w \<longrightarrow>
        put = Inr () \<and> refetch = Inr (notifications (view (snd (handleMarkRead i put refetch w)))))"
proof -
  have first: "handleMarkRead i put refetch w =
     try_catch (then_eff (await put) (\<lambda>_. detached (fetchNotifications refetch)))
       (\<lambda>error. console_error ''Error marking notification read:'' error)
       (w\<lparr>network := network w @ [Put (read_path i)]\<rparr>)"
    by (simp add: handleMarkRead_def api_put_def send_def then_eff_def try_catch_def await_def)
  have changed: "view (snd (handleMarkRead i put refetch w)) \<noteq> view w \<longrightarrow>
        put = Inr () \<and> refetch = Inr (notifications (view (snd (handleMarkRead i put refetch w))))"
  proof (cases put)
    case (Inl e)
    then show ?thesis by (simp add: markRead_fail_run)
  next
    case (Inr u)
    then show ?thesis
      by (cases refetch)
        (simp_all add: markRead_ok_run fetchNotifications_fail_run fetchNotifications_ok_run)
  qed
  from first changed show ?thesis
    by (simp add: markRead_fail_run markRead_ok_run fetchNotifications_ok_run)
qed

theorem mark_read_gating_witness:
  "view (snd (handleMarkRead 1 (Inl err0) (Inr [mk_notif 1 True, mk_notif 2 True]) notif_world))
     = view notif_world
   \<and> view (snd (handleMarkRead 1 (Inr ()) (Inr [mk_notif 1 True, mk_notif 2 True]) notif_world))
       \<noteq> view notif_world
   \<and> notifications
        (view (snd (handleMarkRead 1 (Inr ()) (Inr [mk_notif 1 True, mk_notif 2 True]) notif_world)))
       = [mk_notif 1 True, mk_notif 2 True]"
proof -
  let ?ns = "[mk_notif 1 True, mk_notif 2 True]"
  note failed = mark_read_gating [of 1 "Inl err0" "Inr ?ns" notif_world err0 "()" ?ns]
  note passed = mark_read_gating [of 1 "Inr ()" "Inr ?ns" notif_world err0 "()" ?ns]
  have unchanged: "view (snd (handleMarkRead 1 (Inl err0) (Inr ?ns) notif_world)) = view notif_world"
    using failed by blast
  have after: "view (snd (handleMarkRead 1 (Inr ()) (Inr ?ns) notif_world))
      = (view notif_world)\<lparr>notifications := ?ns\<rparr>"
    using passed by blast
  have changed: "view (snd (handleMarkRead 1 (Inr ()) (Inr ?ns) notif_world)) \<noteq> view notif_world"
    unfolding after by (simp add: concrete_defs)
  with passed have "Inr ?ns = (Inr (notifications
      (view (snd (handleMarkRead 1 (Inr ()) (Inr ?ns) notif_world)))) :: notification list result)"
    by blast
  with unchanged changed show ?thesis by simp
qed

text \<open>
  Claim C5. The request of a toggle is chosen by the flag of the captured event, the
  value before the optimistic flip: POST \<^verbatim>\<open>/events/{id}/bookmark\<close> when it was false,
  DELETE \<^verbatim>\<open>/events/{id}/bookmark\<close> when it was true. It is the one request the
  handler issues, however the call settles.
\<close>

theorem toggle_request_from_pre_toggle_flag:
  "network (snd (handleBookmarkToggle_issue event w)) = network w @ [toggle_request event]
   \<and> network (snd (handleBookmarkToggle event r w)) = network w @ [toggle_request event]
   \<and> (\<not> isBookmarked event \<longrightarrow>
        toggle_request event = Post (''/events/'' @ string_of_nat (id_event event) @ ''/bookmark''))
   \<and> (isBookmarked event \<longrightarrow>
        toggle_request event = Delete (''/events/'' @ string_of_nat (id_event event) @ ''/bookmark''))"
proof -
  have "network (snd (handleBookmarkToggle event r w)) = network w @ [toggle_request event]"
    by (cases r) (simp_all add: toggle_fail_run toggle_ok_run)
  then show ?thesis
    by (simp add: toggle_issue_run toggle_request_def bookmark_path_def)
qed

theorem toggle_request_from_pre_toggle_flag_witness:
  "\<not> isBookmarked (mk_event 1 False) \<and> isBookmarked (mk_event 2 True)
   \<and> network (snd (handleBookmarkToggle (mk_event 1 False) (Inr ()) events_world))
       = [Post ''/events/1/bookmark'']
   \<and> network (snd (handleBookmarkToggle (mk_event 2 True) (Inl err0) events_world))
       = [Delete ''/events/2/bookmark'']"
  using toggle_request_from_pre_toggle_flag [of "mk_event 1 False" events_world "Inr ()"]
    toggle_request_from_pre_toggle_flag [of "mk_event 2 True" events_world "Inl err0"]
  by (simp add: concrete_defs string_of_digit)

text \<open>
  Claim C6. When the request of a toggle succeeds, the second turn changes nothing, in
  whichever state it runs: the state after the whole handler is the one the first turn
  left. Nothing is logged, and the list is the original one with the flag of item
  \<open>i\<close> negated, every other item and the order as before.
\<close>

theorem toggle_success_stable:
  assumes "distinct (map id_event (events (view w)))"
    and "e \<in> set (events (view w))"
    and "id_event e = id_event event"
    and "isBookmarked e = isBookmarked event"
  shows "handleBookmarkToggle_settle event (Inr u) w' = (Inr (), w')
       \<and> snd (handleBookmarkToggle event (Inr u) w) = snd (handleBookmarkToggle_issue event w)
       \<and> console (snd (handleBookmarkToggle event (Inr u) w)) = console w
       \<and> isLoading (view (snd (handleBookmarkToggle event (Inr u) w))) = isLoading (view w)
       \<and> events (view (snd (handleBookmarkToggle event (Inr u) w)))
           = map (\<lambda>x. if id_event x = id_event event
                        then x\<lparr>isBookmarked := \<not> isBookmarked event\<rparr> else x)
               (events (view w))"
proof -
  have "\<forall>x\<in>set (events (view w)).
      id_event x = id_event event \<longrightarrow> isBookmarked x = isBookmarked event"
    using assms by (rule unique_id_flag)
  then have "toggle_optimistic event (events (view w))
      = map (\<lambda>x. if id_event x = id_event event
                   then x\<lparr>isBookmarked := \<not> isBookmarked event\<rparr> else x)
          (events (view w))"
    unfolding toggle_optimistic_def by (intro map_cong) auto
  then show ?thesis
    by (simp add: toggle_ok_run toggle_issue_run toggle_settle_ok_run)
qed

theorem toggle_success_stable_witness:
  "distinct (map id_event (events (view events_world)))
   \<and> mk_event 1 False \<in> set (events (view events_world))
   \<and> events (view (snd (handleBookmarkToggle (mk_event 1 False) (Inr ()) events_world)))
       = [mk_event 1 True, mk_event 2 True]"
proof -
  have uniq: "distinct (map id_event (events (view events_world)))"
    and mem: "mk_event 1 False \<in> set (events (view events_world))"
    by (simp_all add: concrete_defs)
  have "events (view (snd (handleBookmarkToggle (mk_event 1 False) (Inr ()) events_world)))
      = map (\<lambda>x. if id_event x = id_event (mk_event 1 False)
                   then x\<lparr>isBookmarked := \<not> isBookmarked (mk_event 1 False)\<rparr> else x)
          (events (view events_world))"
    using toggle_success_stable [OF uniq mem refl refl, of "()" events_world]
    by blast
  with uniq mem show ?thesis by (simp add: concrete_defs)
qed

section \<open>Failures\<close>

text \<open>
  A failed fetch does not empty a list that was loaded before: after a failed refresh of
  the events page the two cards are still rendered, and after a failed re-fetch the
  notifications are.
\<close>

theorem fetch_failure_keeps_list_counterexample:
  "render_list_page (view (snd (fetchEvents_page (Inl err0) events_world)))
     = Cards [mk_event 1 False, mk_event 2 True]
   \<and> render_list_page (view (snd (fetchEvents_page (Inl err0) events_world))) \<noteq> EmptyText
   \<and> render_notifications (notifications (view (snd (fetchNotifications (Inl err0) notif_world))))
       \<noteq> NoNotificationsText"
  by (simp add: fetchEvents_page_fail_run fetchNotifications_fail_run render_list_page_def
      render_notifications_def concrete_defs)

text \<open>
  Claim C7, amended. Every failed list-loading fetch (events in both pages, bookmarks,
  notifications) is caught and logged, nothing propagates to the caller, and the list
  held in state is left as it was. The page therefore shows the empty-list text when the
  list was empty before the fetch, as it is on the first load.
\<close>

theorem fetch_failure_absorbed:
  "fst (fetchEvents (Inl err) w) = Inr ()
   \<and> events (view (snd (fetchEvents (Inl err) w))) = events (view w)
   \<and> console (snd (fetchEvents (Inl err) w)) = console w @ [(''Error fetching events:'', err)]
   \<and> fst (fetchEvents_page (Inl err) w) = Inr ()
   \<and> events (view (snd (fetchEvents_page (Inl err) w))) = events (view w)
   \<and> console (snd (fetchEvents_page (Inl err) w)) = console w @ [(''Error fetching events:'', err)]
   \<and> fst (fetchBookmarkedEvents (Inl err) w) = Inr ()
   \<and> events (view (snd (fetchBookmarkedEvents (Inl err) w))) = events (view w)
   \<and> console (snd (fetchBookmarkedEvents (Inl err) w))
       = console w @ [(''Error fetching bookmarks:'', err)]
   \<and> fst (fetchNotifications (Inl err) v) = Inr ()
   \<and> view (snd (fetchNotifications (Inl err) v)) = view v
   \<and> console (snd (fetchNotifications (Inl err) v))
       = console v @ [(''Error fetching notifications:'', err)]
   \<and> (events (view w) = [] \<longrightarrow>
        render_list_page (view (snd (fetchEvents (Inl err) w))) = EmptyText
        \<and> render_list_page (view (snd (fetchEvents_page (Inl err) w))) = EmptyText
        \<and> render_list_page (view (snd (fetchBookmarkedEvents (Inl err) w))) = EmptyText)
   \<and> (notifications (view v) = [] \<longrightarrow>
        render_notifications (notifications (view (snd (fetchNotifications (Inl err) v))))
          = NoNotificationsText)"
  by (simp add: fetchEvents_fail_run fetchEvents_page_fail_run fetchBookmarkedEvents_fail_run
      fetchNotifications_fail_run render_list_page_def render_notifications_def)

theorem fetch_failure_absorbed_witness:
  "events (view (world_of list_page_init)) = []
   \<and> render_list_page (view (snd (fetchEvents (Inl err0) (world_of list_page_init)))) = EmptyText
   \<and> render_list_page (view (snd (fetchBookmarkedEvents (Inl err0) (world_of list_page_init))))
       = EmptyText
   \<and> notifications (view (world_of main_app_init)) = []
   \<and> render_notifications
        (notifications (view (snd (fetchNotifications (Inl err0) (world_of main_app_init)))))
       = NoNotificationsText"
proof -
  have e: "events (view (world_of list_page_init)) = []"
    and n: "notifications (view (world_of main_app_init)) = []"
    by (simp_all add: world_of_def list_page_init_def main_app_init_def)
  note t = fetch_failure_absorbed [of err0 "world_of list_page_init" "world_of main_app_init"]
  from t e have "render_list_page (view (snd (fetchEvents (Inl err0) (world_of list_page_init))))
      = EmptyText" by blast
  moreover from t e
  have "render_list_page (view (snd (fetchBookmarkedEvents (Inl err0) (world_of list_page_init))))
      = EmptyText" by blast
  moreover from t n
  have "render_notifications
      (notifications (view (snd (fetchNotifications (Inl err0) (world_of main_app_init)))))
      = NoNotificationsText" by blast
  ultimately show ?thesis using e n by simp
qed

text \<open>
  Claim C8. No mutation handler throws or rejects, however its remote call settles:
  the bookmark toggle, the bookmark removal (each as a whole and in its second turn)
  and mark-read all return normally. On a failure the error is logged once, the toggle
  and the removal roll back, and mark-read leaves the view alone.
\<close>

theorem mutation_failures_absorbed:
  "fst (handleBookmarkToggle event r w) = Inr ()
   \<and> fst (handleBookmarkToggle_settle event r w) = Inr ()
   \<and> fst (handleRemoveBookmark event r w) = Inr ()
   \<and> fst (handleRemoveBookmark_settle event r w) = Inr ()
   \<and> fst (handleMarkRead i put refetch v) = Inr ()
   \<and> console (snd (handleBookmarkToggle event (Inl err) w))
       = console w @ [(''Failed to toggle bookmark'', err)]
   \<and> events (view (snd (handleBookmarkToggle event (Inl err) w)))
       = toggle_revert event (events (view w))
   \<and> console (snd (handleRemoveBookmark event (Inl err) w))
       = console w @ [(''Failed to remove bookmark'', err)]
   \<and> events (view (snd (handleRemoveBookmark event (Inl err) w)))
       = remove_optimistic event (events (view w)) @ [event]
   \<and> console (snd (handleMarkRead i (Inl err) refetch v))
       = console v @ [(''Error marking notification read:'', err)]
   \<and> view (snd (handleMarkRead i (Inl err) refetch v)) = view v"
proof -
  have toggle: "fst (handleBookmarkToggle event r w) = Inr ()"
    by (cases r) (simp_all add: toggle_fail_run toggle_ok_run)
  have toggle': "fst (handleBookmarkToggle_settle event r w) = Inr ()"
    by (cases r) (simp_all add: toggle_settle_fail_run toggle_settle_ok_run)
  have remove: "fst (handleRemoveBookmark event r w) = Inr ()"
    by (cases r) (simp_all add: remove_fail_run remove_ok_run)
  have remove': "fst (handleRemoveBookmark_settle event r w) = Inr ()"
    by (cases r) (simp_all add: remove_settle_fail_run remove_settle_ok_run)
  have mark: "fst (handleMarkRead i put refetch v) = Inr ()"
    by (cases put) (simp_all add: markRead_fail_run markRead_ok_run)
  from toggle toggle' remove remove' mark show ?thesis
    by (simp add: toggle_fail_run remove_fail_run markRead_fail_run)
qed

theorem mutation_failures_absorbed_witness:
  "fst (handleBookmarkToggle (mk_event 1 False) (Inl err0) events_world) = Inr ()
   \<and> fst (handleRemoveBookmark (mk_event 5 True) (Inl err0) bookmarks_world) = Inr ()
   \<and> fst (handleMarkRead 1 (Inl err0) (Inl err0) notif_world) = Inr ()
   \<and> fst (handleMarkRead 1 (Inr ()) (Inl err0) notif_world) = Inr ()"
  using mutation_failures_absorbed [of "mk_event 1 False" "Inl err0" events_world 1 "Inl err0"
      "Inl err0" notif_world err0]
    mutation_failures_absorbed [of "mk_event 5 True" "Inl err0" bookmarks_world 1 "Inr ()"
      "Inl err0" notif_world err0]
  by blast

section \<open>The session store\<close>

text \<open>
  A logout whose request fails rejects before \<^verbatim>\<open>setUser(null)\<close> is reached: the
  store stays authenticated.
\<close>

theorem logout_failure_stays_signed_in_counterexample:
  "session_of (view signed_in_world) = Authenticated alice
   \<and> fst (logout (Inl err0) signed_in_world) = Inl err0
   \<and> session_of (view (snd (logout (Inl err0) signed_in_world))) = Authenticated alice
   \<and> session_of (view (snd (logout (Inl err0) signed_in_world))) \<noteq> Anonymous"
  by (simp add: logout_fail_run session_of_def concrete_defs)

text \<open>
  Claim C9, amended. The store starts unknown. The session check moves it to
  authenticated, holding the identity, on success and to anonymous on failure. From
  anonymous, a successful login or register moves it to authenticated and a failed one
  leaves it anonymous. From authenticated, a logout whose request succeeds moves it to
  anonymous; a logout whose request fails leaves it authenticated and passes the error
  on to the caller.
\<close>

theorem session_state_machine:
  "session_of auth_init = Unknown
   \<and> session_of (view (snd (checkSession (Inr u) w))) = Authenticated u
   \<and> session_of (view (snd (checkSession (Inl err) w))) = Anonymous
   \<and> (session_of (view w) = Anonymous \<longrightarrow>
        session_of (view (snd (login (Inr u) w))) = Authenticated u
        \<and> session_of (view (snd (register (Inr u) w))) = Authenticated u
        \<and> session_of (view (snd (login (Inl err) w))) = Anonymous
        \<and> session_of (view (snd (register (Inl err) w))) = Anonymous)
   \<and> (session_of (view w) = Authenticated u' \<longrightarrow>
        session_of (view (snd (logout (Inr ()) w))) = Anonymous
        \<and> session_of (view (snd (logout (Inl err) w))) = Authenticated u'
        \<and> fst (logout (Inl err) w) = Inl err)"
  by (simp add: auth_init_def session_of_def checkSession_ok_run checkSession_fail_run
      login_ok_run login_fail_run register_ok_run register_fail_run logout_ok_run logout_fail_run
      split: if_splits option.splits)

theorem session_state_machine_witness:
  "session_of (view signed_out_world) = Anonymous
   \<and> session_of (view (snd (login (Inr alice) signed_out_world))) = Authenticated alice
   \<and> session_of (view signed_in_world) = Authenticated alice
   \<and> session_of (view (snd (logout (Inr ()) signed_in_world))) = Anonymous
   \<and> session_of (view (snd (checkSession (Inr alice) (world_of auth_init)))) = Authenticated alice
   \<and> session_of (view (snd (checkSession (Inl err0) (world_of auth_init)))) = Anonymous"
proof -
  have out: "session_of (view signed_out_world) = Anonymous"
    and inn: "session_of (view signed_in_world) = Authenticated alice"
    by (simp_all add: session_of_def concrete_defs)
  note t1 = session_state_machine [of alice signed_out_world err0 alice]
  note t2 = session_state_machine [of alice signed_in_world err0 alice]
  note t3 = session_state_machine [of alice "world_of auth_init" err0 alice]
  from t1 out have "session_of (view (snd (login (Inr alice) signed_out_world))) = Authenticated alice"
    by blast
  moreover from t2 inn have "session_of (view (snd (logout (Inr ()) signed_in_world))) = Anonymous"
    by blast
  moreover from t3
  have "session_of (view (snd (checkSession (Inr alice) (world_of auth_init)))) = Authenticated alice
      \<and> session_of (view (snd (checkSession (Inl err0) (world_of auth_init)))) = Anonymous"
    by blast
  ultimately show ?thesis using out inn by simp
qed

section \<open>Removal rollback and unique ids\<close>

text \<open>
  Claim C10. The failure handler of a removal appends the captured item without
  looking at the list. If the list holds an item of that id by then, the result has at
  least two items of the id, and the ids of the list are no longer distinct.
\<close>

theorem removal_rollback_duplicates:
  assumes "x \<in> set (events (view w))" and "id_event x = id_event k"
  shows "events (view (snd (handleRemoveBookmark_settle k (Inl err) w))) = events (view w) @ [k]
       \<and> 2 \<le> length (filter (\<lambda>y. id_event y = id_event k)
                (events (view (snd (handleRemoveBookmark_settle k (Inl err) w)))))
       \<and> \<not> distinct (map id_event (events (view (snd (handleRemoveBookmark_settle k (Inl err) w)))))"
proof -
  have "filter (\<lambda>y. id_event y = id_event k) (events (view w)) \<noteq> []"
    using assms by (auto simp: filter_empty_conv)
  then have "1 \<le> length (filter (\<lambda>y. id_event y = id_event k) (events (view w)))"
    by (simp add: Suc_le_eq)
  moreover have "id_event k \<in> id_event ` set (events (view w))"
    using assms by (metis imageI)
  ultimately show ?thesis
    by (simp add: remove_settle_fail_run)
qed

theorem removal_rollback_duplicates_witness:
  "mk_event 5 True \<in> set (events (view reloaded_world))
   \<and> events (view (snd (handleRemoveBookmark_settle (mk_event 5 True) (Inl err0) reloaded_world)))
       = [mk_event 5 True, mk_event 9 True, mk_event 5 True]
   \<and> \<not> distinct (map id_event
         (events (view (snd (handleRemoveBookmark_settle (mk_event 5 True) (Inl err0)
            reloaded_world)))))"
proof -
  have ev: "events (view reloaded_world) = [mk_event 5 True, mk_event 9 True]"
    by (simp add: reloaded_world_def fetchBookmarkedEvents_ok_run)
  then have mem: "mk_event 5 True \<in> set (events (view reloaded_world))" by simp
  from removal_rollback_duplicates [OF mem refl, of err0] ev mem show ?thesis by simp
qed

end
